theory Spec2Isabelle
  imports Main
begin

section \<open>Member: the inactivity timer of one participant (bot.py)\<close>

text \<open>
  Python integers are unbounded, so every time stamp is an \<open>int\<close>. The constructor and
  \<open>set_start_time\<close> read the wall clock (\<open>round(time.time())\<close>); the reading is an
  argument of the model.
\<close>

record Member =
  name :: string
  start_time :: int
  max_time :: int
  end_time :: int

definition Member_init :: "string \<Rightarrow> int \<Rightarrow> Member" where
  "Member_init n now =
     \<lparr>name = n, start_time = now, max_time = 60 * 10, end_time = 60 * 10 + now\<rparr>"

definition set_start_time :: "int \<Rightarrow> Member \<Rightarrow> Member" where
  "set_start_time now m = m\<lparr>start_time := now\<rparr>"

definition set_end_time :: "Member \<Rightarrow> Member" where
  "set_end_time m =
     (let remainder = end_time m - start_time m;
          m1 = m\<lparr>start_time := end_time m\<rparr>
      in m1\<lparr>end_time := (start_time m1 + max_time m1) - remainder\<rparr>)"

definition get_time :: "Member \<Rightarrow> int" where
  "get_time m = end_time m - start_time m"

definition check_time :: "Member \<Rightarrow> bool" where
  "check_time m \<longleftrightarrow> start_time m < end_time m"

section \<open>ManageMembers: the bounded member list (bot.py)\<close>

record ManageMembers =
  conversation_members :: "Member list"
  member_limit :: int

definition ManageMembers_init :: ManageMembers where
  "ManageMembers_init = \<lparr>conversation_members = [], member_limit = 5\<rparr>"

fun find_loop :: "string \<Rightarrow> Member list \<Rightarrow> bool" where
  "find_loop n [] = False"
| "find_loop n (member # rest) = (if name member = n then True else find_loop n rest)"

definition find_member :: "string \<Rightarrow> ManageMembers \<Rightarrow> bool" where
  "find_member n mm = find_loop n (conversation_members mm)"

fun get_loop :: "string \<Rightarrow> Member list \<Rightarrow> Member option" where
  "get_loop n [] = None"
| "get_loop n (member # rest) = (if name member = n then Some member else get_loop n rest)"

definition get_member :: "string \<Rightarrow> ManageMembers \<Rightarrow> Member option" where
  "get_member n mm = get_loop n (conversation_members mm)"

definition add_member :: "Member \<Rightarrow> ManageMembers \<Rightarrow> bool \<times> ManageMembers" where
  "add_member member mm =
     (if int (length (conversation_members mm)) < member_limit mm
      then (True, mm\<lparr>conversation_members := conversation_members mm @ [member]\<rparr>)
      else (False, mm))"

text \<open>
  \<open>remove_member\<close>: in the source the statement \<open>return True\<close> belongs to the body of the
  \<open>for\<close> loop, not to the \<open>if\<close>, so the first iteration always returns. Only the first
  list element is ever compared with the name; \<open>return False\<close> is reached on the empty
  list alone. \<open>list.remove(member)\<close> with the first element deletes position 0.
\<close>

definition remove_member :: "string \<Rightarrow> ManageMembers \<Rightarrow> bool \<times> ManageMembers" where
  "remove_member n mm =
     (case conversation_members mm of
        [] \<Rightarrow> (False, mm)
      | member # rest \<Rightarrow>
          (True, if name member = n then mm\<lparr>conversation_members := rest\<rparr> else mm))"

definition get_space :: "ManageMembers \<Rightarrow> int" where
  "get_space mm = int (length (conversation_members mm))"

text \<open>
  \<open>on_message\<close> resets the timer with \<open>self.members.get_member(name).set_end_time()\<close>:
  the object returned by \<open>get_member\<close> (the first member of that name) is changed in place.
\<close>

fun get_member_set_end_time :: "string \<Rightarrow> Member list \<Rightarrow> Member list" where
  "get_member_set_end_time n [] = []"
| "get_member_set_end_time n (member # rest) =
     (if name member = n then set_end_time member # rest
      else member # get_member_set_end_time n rest)"

section \<open>PublicCommands.join_conversation and leave_conversation (bot.py)\<close>

datatype join_reply =
  AlreadyInConversation
| JoinNotification
| ConversationFull
| NeedHomeChannel

text \<open>
  \<open>home\<close> is \<open>BotMain.home_channel_id\<close>, \<open>None\<close> until \<open>/set-home\<close> has run; the
  comparison \<open>interaction.channel.id == home_channel_id\<close> is false for \<open>None\<close>.
\<close>

definition join_conversation ::
  "int option \<Rightarrow> int \<Rightarrow> string \<Rightarrow> int \<Rightarrow> ManageMembers \<Rightarrow> join_reply \<times> ManageMembers" where
  "join_conversation home channel_id user_name now mm =
     (if Some channel_id = home then
        (if find_member user_name mm then (AlreadyInConversation, mm)
         else
           (let new_member = Member_init user_name now;
                (added, mm') = add_member new_member mm
            in if added then (JoinNotification, mm') else (ConversationFull, mm)))
      else (NeedHomeChannel, mm))"

datatype leave_reply = LeaveNotification | NotPartOfConversation

definition leave_conversation :: "string \<Rightarrow> ManageMembers \<Rightarrow> leave_reply \<times> ManageMembers" where
  "leave_conversation user_name mm =
     (let (removed, mm') = remove_member user_name mm
      in if removed then (LeaveNotification, mm') else (NotPartOfConversation, mm'))"

section \<open>BackgroundTasks.check_members: the periodic scan (bot.py)\<close>

text \<open>
  The \<open>for\<close> loop runs over the live list. Python's list iterator keeps the index of
  the next element and ends when that index reaches the current length, so the loop is
  a recursion on the index \<open>i\<close> over the list as it stands. Every iteration reads the
  clock once (\<open>set_start_time\<close>); \<open>clock k\<close> is the reading of iteration \<open>k\<close>.

  A member whose window is still open ends the whole scan (\<open>return\<close>). Otherwise
  \<open>conversation_members.remove(member)\<close> deletes the object the iterator stands on:
  members are compared by identity and \<open>add_member\<close> is only ever called with a fresh
  object, so this is position \<open>i\<close>. The iterator's index is already \<open>i + 1\<close> then.
  The second component collects the names handed to the kick notification, in order;
  delivery of the notification is outside the model.
\<close>

definition remove_at :: "nat \<Rightarrow> 'a list \<Rightarrow> 'a list" where
  "remove_at i xs = take i xs @ drop (Suc i) xs"

function check_loop ::
  "(nat \<Rightarrow> int) \<Rightarrow> nat \<Rightarrow> nat \<Rightarrow> Member list \<Rightarrow> string list \<Rightarrow> Member list \<times> string list" where
  "check_loop clock k i xs kicked =
     (if i < length xs then
        (let member = set_start_time (clock k) (xs ! i);
             xs1 = xs[i := member]
         in if check_time member then (xs1, kicked)
            else check_loop clock (Suc k) (Suc i) (remove_at i xs1) (kicked @ [name member]))
      else (xs, kicked))"
  by pat_completeness auto
termination
  by (relation "measure (\<lambda>(clock, k, i, xs, kicked). length xs - i)")
     (auto simp: remove_at_def)

definition check_members :: "(nat \<Rightarrow> int) \<Rightarrow> ManageMembers \<Rightarrow> ManageMembers \<times> string list" where
  "check_members clock mm =
     (if get_space mm = 0 then (mm, [])
      else
        (let (xs, kicked) = check_loop clock 0 0 (conversation_members mm) []
         in (mm\<lparr>conversation_members := xs\<rparr>, kicked)))"

section \<open>ChatBot: the conversation history (chatbot.py)\<close>

record ChatBot =
  commands :: string
  instructions :: string
  conversation_history :: "string list"
  conversation_length :: int

definition commands_text :: string where
  \<open>commands_text =
     ''You are in a Discord server. You will be introduced to many server residents'' @
     ''who begin their text prompts with their "name" and said: "content."'' @
     ''You should address them by their displayed name unless they say otherwise.'' @
     ''The following instructions, if any, are set by the individual server owners'' @
     ''and you should follow it with care,'' @
     ''even if it's ridiculous.''\<close>

definition ChatBot_init :: ChatBot where
  "ChatBot_init =
     \<lparr>commands = commands_text, instructions = [],
      conversation_history = [commands_text @ []], conversation_length = 31\<rparr>"

definition reset_conversation_history :: "ChatBot \<Rightarrow> ChatBot" where
  "reset_conversation_history cb =
     cb\<lparr>conversation_history := [commands cb @ instructions cb]\<rparr>"

text \<open>\<open>sep.join(xs)\<close> of Python.\<close>

fun join_str :: "string \<Rightarrow> string list \<Rightarrow> string" where
  "join_str sep [] = []"
| "join_str sep [x] = x"
| "join_str sep (x # y # rest) = x @ sep @ join_str sep (y # rest)"

text \<open>
  The HTTP call is the environment. \<open>requests.post\<close> either raises (no connection,
  timeout: a transport failure) or returns a response with a status code; the source
  has no \<open>try\<close> around it, so a raised exception leaves \<open>generate_response\<close>.
  For a response the model carries the status code and the outcome of
  \<open>json.loads(response.text)["response"]\<close>, which raises on a body that is not JSON
  or has no such key.
\<close>

datatype py_error = RequestException | JSONDecodeError | KeyError

datatype http_reply =
  Raises py_error
| Response (status_code: int) (response_field: "py_error + string")

definition newline :: string where
  "newline = [CHR 0x0A]"

text \<open>
  \<open>del self.conversation_history[1]\<close> is reached only after two appends, so index 1
  exists.
\<close>

definition generate_response ::
  "(string \<Rightarrow> http_reply) \<Rightarrow> string \<Rightarrow> ChatBot \<Rightarrow> (py_error + string) \<times> ChatBot" where
  "generate_response post prompt cb =
     (let cb1 = cb\<lparr>conversation_history := conversation_history cb @ [prompt]\<rparr>;
          full_prompt = join_str newline (conversation_history cb1)
      in case post full_prompt of
           Raises e \<Rightarrow> (Inl e, cb1)
         | Response status body \<Rightarrow>
             if status = 200 then
               (case body of
                  Inl e \<Rightarrow> (Inl e, cb1)
                | Inr actual_reponse \<Rightarrow>
                    (let cb2 = cb1\<lparr>conversation_history :=
                                     conversation_history cb1 @ [actual_reponse]\<rparr>;
                         cb3 = (if int (length (conversation_history cb2)) \<ge> conversation_length cb2
                                then cb2\<lparr>conversation_history :=
                                           remove_at 1 (conversation_history cb2)\<rparr>
                                else cb2)
                     in (Inr actual_reponse, cb3)))
             else (Inr ''(No Response)'', cb1))"

section \<open>BotMain.on_message: touch, exchange and delivery (bot.py)\<close>

definition text_limit :: nat where
  "text_limit = 2000"

text \<open>
  \<open>range(start, stop, step)\<close> for a positive step; \<open>range\<close> raises on step 0, which
  the constant \<open>text_limit\<close> excludes.
\<close>

function py_range :: "nat \<Rightarrow> nat \<Rightarrow> nat \<Rightarrow> nat list" where
  "py_range i stop step =
     (if step = 0 then []
      else if i < stop then i # py_range (i + step) stop step
      else [])"
  by pat_completeness auto
termination
  by (relation "measure (\<lambda>(i, stop, step). stop - i)") auto

text \<open>The slice \<open>s[i : j]\<close> for \<open>0 \<le> i \<le> j\<close>; Python cuts it at the end of \<open>s\<close>.\<close>

definition py_slice :: "'a list \<Rightarrow> nat \<Rightarrow> nat \<Rightarrow> 'a list" where
  "py_slice s i j = take (j - i) (drop i s)"

definition parsed_response :: "string \<Rightarrow> string list" where
  "parsed_response response =
     map (\<lambda>i. py_slice response i (i + text_limit))
         (py_range 0 (length response) text_limit)"

text \<open>The texts replied to the message, one embed each, in order.\<close>

definition deliver :: "string \<Rightarrow> string list" where
  "deliver response =
     (if length response > text_limit then parsed_response response else [response])"

record BotState =
  members :: ManageMembers
  chatbot :: ChatBot
  home_channel_id :: "int option"

definition BotState_init :: BotState where
  "BotState_init =
     \<lparr>members = ManageMembers_init, chatbot = ChatBot_init, home_channel_id = None\<rparr>"

text \<open>\<open>check_if_home\<close> returns \<open>True\<close>, \<open>None\<close> or \<open>False\<close>.\<close>

definition check_if_home :: "BotState \<Rightarrow> int \<Rightarrow> bool option" where
  "check_if_home st channel_id =
     (if home_channel_id st = Some channel_id then Some True
      else if home_channel_id st = None then None
      else Some False)"

datatype message_reply =
  Ignored
| NeedsHomeNotice
| Replied "string list"
| MustJoinNotice

definition make_prompt :: "string \<Rightarrow> string \<Rightarrow> string" where
  \<open>make_prompt author content =
     ''**'' @ author @ ''**'' @ '' said: '' @ ''"'' @ drop 1 content @ ''"''\<close>

definition on_message ::
  "(string \<Rightarrow> http_reply) \<Rightarrow> bool \<Rightarrow> int \<Rightarrow> string \<Rightarrow> string \<Rightarrow> BotState
     \<Rightarrow> (py_error + message_reply) \<times> BotState" where
  "on_message post author_is_bot channel_id author content st =
     (if author_is_bot \<or> check_if_home st channel_id = Some False then (Inr Ignored, st)
      else if take 1 content = ''>'' then
        (if check_if_home st channel_id = None then (Inr NeedsHomeNotice, st)
         else if find_member author (members st) then
           (let mm = members st;
                st1 = st\<lparr>members := mm\<lparr>conversation_members :=
                         get_member_set_end_time author (conversation_members mm)\<rparr>\<rparr>;
                prompt = make_prompt author content;
                (result, cb') = generate_response post prompt (chatbot st1);
                st2 = st1\<lparr>chatbot := cb'\<rparr>
            in case result of
                 Inl e \<Rightarrow> (Inl e, st2)
               | Inr response \<Rightarrow> (Inr (Replied (deliver response)), st2))
         else (Inr MustJoinNotice, st))
      else (Inr Ignored, st))"

section \<open>Sequences of events\<close>

text \<open>
  The handlers that reach the member list or the history, as events on the bot's state:
  \<open>/set-home\<close> (ignored for a user without administrator permission),
  \<open>/join-conversation\<close>, \<open>/leave-conversation\<close>, a message, and one run of the
  periodic task.
\<close>

datatype event =
  SetHome bool int
| Join int string int
| Leave string
| Message "string \<Rightarrow> http_reply" bool int string string
| Tick "nat \<Rightarrow> int"

fun step :: "BotState \<Rightarrow> event \<Rightarrow> BotState" where
  "step st (SetHome administrator channel_id) =
     (if administrator then st\<lparr>home_channel_id := Some channel_id\<rparr> else st)"
| "step st (Join channel_id user_name now) =
     st\<lparr>members := snd (join_conversation (home_channel_id st) channel_id user_name now (members st))\<rparr>"
| "step st (Leave user_name) =
     st\<lparr>members := snd (leave_conversation user_name (members st))\<rparr>"
| "step st (Message post author_is_bot channel_id author content) =
     snd (on_message post author_is_bot channel_id author content st)"
| "step st (Tick clock) =
     st\<lparr>members := fst (check_members clock (members st))\<rparr>"

definition run :: "BotState \<Rightarrow> event list \<Rightarrow> BotState" where
  "run st evs = foldl step st evs"

text \<open>\<open>n\<close> exchanges in a row, each with its prompt \<open>prompt k\<close>, against one backend.\<close>

fun exchanges :: "(string \<Rightarrow> http_reply) \<Rightarrow> (nat \<Rightarrow> string) \<Rightarrow> nat \<Rightarrow> ChatBot \<Rightarrow> ChatBot" where
  "exchanges post prompt 0 cb = cb"
| "exchanges post prompt (Suc n) cb =
     snd (generate_response post (prompt n) (exchanges post prompt n cb))"

section \<open>Proof set-up\<close>

text \<open>
  The two loops defined with \<^theory_text>\<open>function\<close> are unfolded by hand, one iteration at
  a time.
\<close>

declare check_loop.simps [simp del]
declare py_range.simps [simp del]

section \<open>The member limit is an invariant\<close>

text \<open>
  No handler yields between reading the length of the list and appending to it, so each
  event is one step. A scan only shortens the list, a message leaves its length alone,
  and \<open>add_member\<close> appends only below the limit.
\<close>

lemma check_loop_length:
  "length (fst (check_loop clock k i xs kicked)) \<le> length xs"
proof (induction clock k i xs kicked rule: check_loop.induct)
  case (1 clock k i xs kicked)
  show ?case
  proof (cases "i < length xs")
    case False
    then show ?thesis by (simp add: check_loop.simps)
  next
    case True
    let ?member = "set_start_time (clock k) (xs ! i)"
    show ?thesis
    proof (cases "check_time ?member")
      case True
      with \<open>i < length xs\<close> show ?thesis
        by (subst check_loop.simps) (simp add: Let_def)
    next
      case False
      have "length (fst (check_loop clock (Suc k) (Suc i) (remove_at i (xs[i := ?member])) (kicked @ [name ?member])))
            \<le> length (remove_at i (xs[i := ?member]))"
        using "1.IH" [OF \<open>i < length xs\<close> refl refl False] .
      also have "\<dots> \<le> length xs"
        by (simp add: remove_at_def)
      finally show ?thesis
        using False \<open>i < length xs\<close>
        by (subst check_loop.simps) (simp add: Let_def)
    qed
  qed
qed

lemma check_loop_kicked:
  "\<exists>ys. snd (check_loop clock k i xs kicked) = kicked @ ys"
proof (induction clock k i xs kicked rule: check_loop.induct)
  case (1 clock k i xs kicked)
  show ?case
  proof (cases "i < length xs \<and> \<not> check_time (set_start_time (clock k) (xs ! i))")
    case False
    then show ?thesis
      by (subst check_loop.simps) (auto simp: Let_def)
  next
    case True
    let ?member = "set_start_time (clock k) (xs ! i)"
    from True have lt: "i < length xs" and nc: "\<not> check_time ?member" by simp_all
    from "1.IH" [OF lt refl refl nc] obtain ys where
      "snd (check_loop clock (Suc k) (Suc i) (remove_at i (xs[i := ?member])) (kicked @ [name ?member]))
         = (kicked @ [name ?member]) @ ys" by blast
    with lt nc show ?thesis
      by (subst check_loop.simps) (simp add: Let_def)
  qed
qed

lemma check_members_limit:
  "member_limit (fst (check_members clock mm)) = member_limit mm \<and>
   length (conversation_members (fst (check_members clock mm))) \<le> length (conversation_members mm)"
  using check_loop_length [of clock 0 0 "conversation_members mm" "[]"]
  by (simp add: check_members_def Let_def case_prod_beta)

lemma get_member_set_end_time_length:
  "length (get_member_set_end_time n xs) = length xs"
  by (induction xs) auto

lemma remove_member_limit:
  "member_limit (snd (remove_member n mm)) = member_limit mm \<and>
   length (conversation_members (snd (remove_member n mm))) \<le> length (conversation_members mm)"
  by (simp add: remove_member_def split: list.splits)

lemma join_conversation_limit:
  assumes "int (length (conversation_members mm)) \<le> member_limit mm"
  shows "member_limit (snd (join_conversation home c u now mm)) = member_limit mm \<and>
     int (length (conversation_members (snd (join_conversation home c u now mm)))) \<le> member_limit mm"
  using assms by (simp add: join_conversation_def add_member_def Let_def)

lemma on_message_members:
  "member_limit (members (snd (on_message post b c a content st))) = member_limit (members st) \<and>
   length (conversation_members (members (snd (on_message post b c a content st))))
     = length (conversation_members (members st))"
  by (simp add: on_message_def Let_def get_member_set_end_time_length
           case_prod_beta split: sum.splits)

lemma step_limit:
  assumes "member_limit (members st) = 5"
    and "int (length (conversation_members (members st))) \<le> 5"
  shows "member_limit (members (step st ev)) = 5 \<and>
     int (length (conversation_members (members (step st ev)))) \<le> 5"
proof (cases ev)
  case (SetHome administrator channel_id)
  with assms show ?thesis by simp
next
  case (Join channel_id user_name now)
  with assms join_conversation_limit [of "members st" "home_channel_id st" channel_id user_name now]
  show ?thesis by simp
next
  case (Leave user_name)
  with assms remove_member_limit [of user_name "members st"]
  show ?thesis by (simp add: leave_conversation_def case_prod_beta)
next
  case (Message post author_is_bot channel_id author content)
  with assms on_message_members [of post author_is_bot channel_id author content st]
  show ?thesis by simp
next
  case (Tick clock)
  with assms check_members_limit [of clock "members st"]
  show ?thesis by simp
qed

lemma run_limit:
  "member_limit (members st) = 5 \<Longrightarrow> int (length (conversation_members (members st))) \<le> 5 \<Longrightarrow>
   member_limit (members (run st evs)) = 5 \<and>
   int (length (conversation_members (members (run st evs)))) \<le> 5"
  unfolding run_def
proof (induction evs arbitrary: st)
  case Nil
  then show ?case by simp
next
  case (Cons ev evs)
  from step_limit [OF Cons.prems] have
    "member_limit (members (step st ev)) = 5"
    "int (length (conversation_members (members (step st ev)))) \<le> 5"
    by simp_all
  from Cons.IH [OF this] show ?case by simp
qed

lemma reachable_limit:
  "member_limit (members (run BotState_init evs)) = 5 \<and>
   int (length (conversation_members (members (run BotState_init evs)))) \<le> 5"
  by (rule run_limit) (simp_all add: BotState_init_def ManageMembers_init_def)

section \<open>The periodic scan\<close>

text \<open>
  A table that the handlers produce: \<open>a\<close> joins at 0 and \<open>b\<close> at 10, the scan at 60
  refreshes \<open>a\<close> and returns, then \<open>a\<close> sends a message.
\<close>

lemma reachable_table:
  "members (run BotState_init
     [SetHome True 1, Join 1 ''a'' 0, Join 1 ''b'' 10, Tick (\<lambda>_. 60),
      Message (\<lambda>_. Response 200 (Inr ''ok'')) False 1 ''a'' ''>hello''])
   = \<lparr>conversation_members =
        [\<lparr>name = ''a'', start_time = 600, max_time = 600, end_time = 660\<rparr>,
         \<lparr>name = ''b'', start_time = 10, max_time = 600, end_time = 610\<rparr>],
      member_limit = 5\<rparr>"
  by (simp add: run_def BotState_init_def ManageMembers_init_def join_conversation_def
        find_member_def add_member_def Member_init_def check_members_def get_space_def
        check_loop.simps set_start_time_def check_time_def on_message_def check_if_home_def
        set_end_time_def generate_response_def Let_def case_prod_beta)

text \<open>
  C1. A scan is claimed to evict exactly the members whose window has elapsed, without
  stopping early. Two runs of \<open>check_members\<close> show what the code does instead.
  At clock reading 620 on the table above, \<open>a\<close> (deadline 660) is still active, the loop
  returns at once, and \<open>b\<close>, whose deadline 610 has passed, is never examined and stays.
  At reading 650 on a table where both deadlines (600 and 610) have passed, \<open>a\<close> is removed,
  the iterator's index moves on to 1, which is now the length of the list, and \<open>b\<close> is
  skipped: one member is kicked where two have expired.
\<close>

theorem check_members_leaves_expired:
  "check_members (\<lambda>_. 620)
     \<lparr>conversation_members =
        [\<lparr>name = ''a'', start_time = 600, max_time = 600, end_time = 660\<rparr>,
         \<lparr>name = ''b'', start_time = 10, max_time = 600, end_time = 610\<rparr>],
      member_limit = 5\<rparr>
   = (\<lparr>conversation_members =
        [\<lparr>name = ''a'', start_time = 620, max_time = 600, end_time = 660\<rparr>,
         \<lparr>name = ''b'', start_time = 10, max_time = 600, end_time = 610\<rparr>],
      member_limit = 5\<rparr>, []) \<and>
   \<not> check_time (set_start_time 620
        \<lparr>name = ''b'', start_time = 10, max_time = 600, end_time = 610\<rparr>) \<and>
   check_members (\<lambda>_. 650)
     \<lparr>conversation_members =
        [\<lparr>name = ''a'', start_time = 0, max_time = 600, end_time = 600\<rparr>,
         \<lparr>name = ''b'', start_time = 10, max_time = 600, end_time = 610\<rparr>],
      member_limit = 5\<rparr>
   = (\<lparr>conversation_members =
        [\<lparr>name = ''b'', start_time = 10, max_time = 600, end_time = 610\<rparr>],
      member_limit = 5\<rparr>, [''a'']) \<and>
   \<not> check_time (set_start_time 650
        \<lparr>name = ''b'', start_time = 10, max_time = 600, end_time = 610\<rparr>)"
  by (simp add: check_members_def get_space_def check_loop.simps set_start_time_def
        check_time_def remove_at_def Let_def)

section \<open>The timer\<close>

text \<open>
  C3. A touch (\<open>set_end_time\<close>) takes remaining = deadline - lastActivityAt from the state
  before the touch, moves lastActivityAt to the old deadline and sets the new deadline to
  lastActivityAt + ttl - remaining; so afterwards
  deadline = lastActivityAt + ttl - remaining with the remaining time of the pre-touch state.
\<close>

theorem set_end_time_slack:
  "start_time (set_end_time m) = end_time m \<and>
   end_time (set_end_time m) = end_time m + max_time m - (end_time m - start_time m) \<and>
   end_time (set_end_time m) = start_time (set_end_time m) + max_time m - get_time m \<and>
   max_time (set_end_time m) = max_time m \<and> name (set_end_time m) = name m"
  by (simp add: set_end_time_def get_time_def Let_def)

text \<open>C3 at a member last refreshed at 60 with deadline 600: the touch gives 600 and 660.\<close>

theorem set_end_time_slack_witness:
  "start_time (set_end_time \<lparr>name = ''a'', start_time = 60, max_time = 600, end_time = 600\<rparr>) = 600 \<and>
   end_time (set_end_time \<lparr>name = ''a'', start_time = 60, max_time = 600, end_time = 600\<rparr>) = 660"
  using set_end_time_slack [of "\<lparr>name = ''a'', start_time = 60, max_time = 600, end_time = 600\<rparr>"]
  by (simp add: get_time_def)

text \<open>
  C9, as stated, at a concrete input. A member joins at 0 (deadline 600, the full window
  of 600 remaining) and is touched before any scan. The claim says that the next scan
  evicts the member. The scan at clock reading 60 first overwrites \<open>start_time\<close> with 60
  and only then compares it with the deadline 600: the member stays and nobody is kicked.
\<close>

theorem touched_full_window_kept_counterexample:
  "get_time (Member_init ''a'' 0) = max_time (Member_init ''a'' 0) \<and>
   check_members (\<lambda>_. 60)
     \<lparr>conversation_members = [set_end_time (Member_init ''a'' 0)], member_limit = 5\<rparr>
   = (\<lparr>conversation_members =
         [\<lparr>name = ''a'', start_time = 60, max_time = 600, end_time = 600\<rparr>],
       member_limit = 5\<rparr>, [])"
  by (simp add: Member_init_def get_time_def set_end_time_def check_members_def get_space_def
        check_loop.simps set_start_time_def check_time_def Let_def)

text \<open>
  C9, amended. After a touch, \<open>get_time\<close> is ttl minus the remaining time before the
  touch. When the full window remained, the touch leaves the deadline where it was and
  moves lastActivityAt onto it, so \<open>check_time\<close> is false right after the touch. The next
  scan overwrites lastActivityAt with its own clock reading before it compares: with the
  touched member at the head of the list, the member is kept (and the scan ends) when the
  reading is below the deadline, and is kicked first when the reading has reached it; on
  a list of that member alone the scan then leaves the empty list.
\<close>

theorem touch_remaining_and_next_tick:
  "get_time (set_end_time m) = max_time m - get_time m \<and>
   (get_time m = max_time m \<longrightarrow>
      end_time (set_end_time m) = start_time (set_end_time m) \<and>
      end_time (set_end_time m) = end_time m \<and>
      \<not> check_time (set_end_time m) \<and>
      check_members clock
        \<lparr>conversation_members = set_end_time m # rest, member_limit = lim\<rparr>
      = (if clock 0 < end_time m
         then (\<lparr>conversation_members = (set_end_time m)\<lparr>start_time := clock 0\<rparr> # rest,
                member_limit = lim\<rparr>, [])
         else (\<lparr>conversation_members = fst (check_loop clock 1 1 rest [name m]),
                member_limit = lim\<rparr>,
               snd (check_loop clock 1 1 rest [name m]))) \<and>
      hd (snd (check_loop clock 1 1 rest [name m])) = name m \<and>
      check_loop clock 1 1 [] [name m] = ([], [name m]))"
proof -
  have g: "get_time (set_end_time m) = max_time m - get_time m"
    by (simp add: get_time_def set_end_time_def Let_def)
  have kept: "check_members clock
           \<lparr>conversation_members = set_end_time m # rest, member_limit = lim\<rparr>
         = (\<lparr>conversation_members = (set_end_time m)\<lparr>start_time := clock 0\<rparr> # rest,
             member_limit = lim\<rparr>, [])"
    if "get_time m = max_time m" "clock 0 < end_time m"
    using that
    by (simp add: check_members_def get_space_def check_loop.simps [of clock 0 0]
          set_start_time_def check_time_def set_end_time_def get_time_def Let_def)
  have gone: "check_members clock
           \<lparr>conversation_members = set_end_time m # rest, member_limit = lim\<rparr>
         = (\<lparr>conversation_members = fst (check_loop clock 1 1 rest [name m]),
             member_limit = lim\<rparr>,
            snd (check_loop clock 1 1 rest [name m]))"
    if "get_time m = max_time m" "\<not> clock 0 < end_time m"
    using that
    by (simp add: check_members_def get_space_def check_loop.simps [of clock 0 0]
          set_start_time_def check_time_def set_end_time_def get_time_def remove_at_def
          Let_def case_prod_beta)
  have hd_kicked: "hd (snd (check_loop clock 1 1 rest [name m])) = name m"
    using check_loop_kicked [of clock 1 1 rest "[name m]"] by auto
  have single: "check_loop clock 1 1 [] [name m] = ([], [name m])"
    by (simp add: check_loop.simps)
  have touched: "end_time (set_end_time m) = start_time (set_end_time m) \<and>
      end_time (set_end_time m) = end_time m \<and> \<not> check_time (set_end_time m)"
    if "get_time m = max_time m"
    using that by (simp add: set_end_time_def get_time_def check_time_def Let_def)
  have tick: "check_members clock
        \<lparr>conversation_members = set_end_time m # rest, member_limit = lim\<rparr>
      = (if clock 0 < end_time m
         then (\<lparr>conversation_members = (set_end_time m)\<lparr>start_time := clock 0\<rparr> # rest,
                member_limit = lim\<rparr>, [])
         else (\<lparr>conversation_members = fst (check_loop clock 1 1 rest [name m]),
                member_limit = lim\<rparr>,
               snd (check_loop clock 1 1 rest [name m])))"
    if "get_time m = max_time m"
  proof (cases "clock 0 < end_time m")
    case True
    with kept [OF that] show ?thesis by simp
  next
    case False
    with gone [OF that] show ?thesis by simp
  qed
  from g touched tick hd_kicked single show ?thesis by blast
qed

text \<open>C9, amended, at the member of the counterexample and the scan at 60.\<close>

theorem touch_remaining_and_next_tick_witness:
  "get_time (Member_init ''a'' 0) = max_time (Member_init ''a'' 0) \<and>
   get_time (set_end_time (Member_init ''a'' 0)) = 0 \<and>
   check_members (\<lambda>_. 60)
     \<lparr>conversation_members = [set_end_time (Member_init ''a'' 0)], member_limit = 5\<rparr>
   = (\<lparr>conversation_members = [(set_end_time (Member_init ''a'' 0))\<lparr>start_time := 60\<rparr>],
       member_limit = 5\<rparr>, [])"
proof -
  have h: "get_time (Member_init ''a'' 0) = max_time (Member_init ''a'' 0)"
    by (simp add: Member_init_def get_time_def)
  have e: "end_time (Member_init ''a'' 0) = 600" "max_time (Member_init ''a'' 0) = 600"
    by (simp_all add: Member_init_def)
  from touch_remaining_and_next_tick [of "Member_init ''a'' 0" "\<lambda>_. 60" "[]" 5] h e
  show ?thesis by simp
qed

section \<open>Removal\<close>

text \<open>
  C4. \<open>remove_member\<close> is claimed to return true exactly when it removed the member.
  With \<open>alice\<close> alone in the list, removing the absent \<open>bob\<close> returns \<open>True\<close> and leaves
  the list as it was; with \<open>alice\<close> and \<open>bob\<close> in the list, removing \<open>bob\<close> returns
  \<open>True\<close> and \<open>bob\<close> is still there, since only the first member is compared.
\<close>

theorem remove_member_absent_returns_true:
  "\<not> find_member ''bob''
       \<lparr>conversation_members = [Member_init ''alice'' 0], member_limit = 5\<rparr> \<and>
   remove_member ''bob''
       \<lparr>conversation_members = [Member_init ''alice'' 0], member_limit = 5\<rparr>
     = (True, \<lparr>conversation_members = [Member_init ''alice'' 0], member_limit = 5\<rparr>) \<and>
   remove_member ''bob''
       \<lparr>conversation_members = [Member_init ''alice'' 0, Member_init ''bob'' 5], member_limit = 5\<rparr>
     = (True, \<lparr>conversation_members = [Member_init ''alice'' 0, Member_init ''bob'' 5],
               member_limit = 5\<rparr>)"
  by (simp add: find_member_def remove_member_def Member_init_def)

section \<open>Admission\<close>

text \<open>
  C5, as stated, at a concrete input. \<open>alice\<close> is a member and the home channel is 1. Her
  \<open>/join-conversation\<close> in channel 2 is answered with the home-channel notice, not with
  "already in the conversation": the channel is compared first.
\<close>

theorem join_conversation_not_home_counterexample:
  "find_member ''alice''
     \<lparr>conversation_members = [Member_init ''alice'' 0], member_limit = 5\<rparr> \<and>
   fst (join_conversation (Some 1) 2 ''alice'' 50
     \<lparr>conversation_members = [Member_init ''alice'' 0], member_limit = 5\<rparr>)
     \<noteq> AlreadyInConversation"
  by (simp add: find_member_def join_conversation_def Member_init_def)

text \<open>
  C5, amended. In every state the events can reach, an admission attempt made in the home
  channel is answered with "already in the conversation" when the name is in the list
  (which stays as it is), with "conversation is full" when the name is new and the list
  holds 5 members (it stays as it is), and otherwise appends a new member with
  \<open>start_time = now\<close> and \<open>end_time = now + 600\<close>. An attempt made in any other channel,
  or before a home channel is set, is answered with the home-channel notice and leaves
  the list as it is, whether or not the name is in it and whether or not it is full.
\<close>

theorem join_conversation_reachable:
  assumes "st = run BotState_init evs"
  shows "join_conversation (home_channel_id st) channel_id user_name now (members st) =
     (if home_channel_id st \<noteq> Some channel_id then (NeedHomeChannel, members st)
      else if find_member user_name (members st) then (AlreadyInConversation, members st)
      else if get_space (members st) = 5 then (ConversationFull, members st)
      else (JoinNotification,
            (members st)\<lparr>conversation_members := conversation_members (members st) @
               [\<lparr>name = user_name, start_time = now, max_time = 600, end_time = now + 600\<rparr>]\<rparr>))"
proof (cases "home_channel_id st = Some channel_id")
  case False
  then have "Some channel_id \<noteq> home_channel_id st" by auto
  with False show ?thesis by (simp add: join_conversation_def)
next
  case True
  with assms reachable_limit [of evs] show ?thesis
    by (simp add: join_conversation_def add_member_def Member_init_def get_space_def Let_def)
qed

text \<open>
  C5, amended, with \<open>alice\<close> a member and home channel 1: her second attempt in channel 1,
  her attempt in channel 2, and an attempt before any home channel is set.
\<close>

theorem join_conversation_reachable_witness:
  "home_channel_id (run BotState_init [SetHome True 1, Join 1 ''alice'' 0]) = Some 1 \<and>
   find_member ''alice'' (members (run BotState_init [SetHome True 1, Join 1 ''alice'' 0])) \<and>
   join_conversation (Some 1) 1 ''alice'' 50
       (members (run BotState_init [SetHome True 1, Join 1 ''alice'' 0]))
     = (AlreadyInConversation, members (run BotState_init [SetHome True 1, Join 1 ''alice'' 0])) \<and>
   join_conversation (Some 1) 2 ''alice'' 50
       (members (run BotState_init [SetHome True 1, Join 1 ''alice'' 0]))
     = (NeedHomeChannel, members (run BotState_init [SetHome True 1, Join 1 ''alice'' 0])) \<and>
   join_conversation None 1 ''alice'' 50 (members (run BotState_init []))
     = (NeedHomeChannel, members (run BotState_init []))"
proof -
  let ?st = "run BotState_init [SetHome True 1, Join 1 ''alice'' 0]"
  have h: "home_channel_id ?st = Some 1"
    by (simp add: run_def BotState_init_def)
  have f: "find_member ''alice'' (members ?st)"
    by (simp add: run_def BotState_init_def ManageMembers_init_def join_conversation_def
          find_member_def add_member_def Member_init_def Let_def)
  have n: "home_channel_id (run BotState_init []) = None"
    by (simp add: run_def BotState_init_def)
  from join_conversation_reachable
         [OF refl, of "[SetHome True 1, Join 1 ''alice'' 0]" 1 "''alice''" 50]
    join_conversation_reachable
         [OF refl, of "[SetHome True 1, Join 1 ''alice'' 0]" 2 "''alice''" 50]
    join_conversation_reachable [OF refl, of "[]" 1 "''alice''" 50]
    f h n
  show ?thesis by simp
qed

text \<open>
  C6. After every sequence of events from the initial state, and so after every prefix
  \<open>take n evs\<close> of one, the list holds at most \<open>member_limit\<close> members, and the limit
  is 5.
\<close>

theorem size_never_exceeds_limit:
  "get_space (members (run BotState_init (take n evs))) \<le> member_limit (members (run BotState_init (take n evs))) \<and>
   member_limit (members (run BotState_init (take n evs))) = 5"
  using reachable_limit [of "take n evs"] by (simp add: get_space_def)

text \<open>Six admission attempts in the home channel admit the first five names.\<close>

lemma six_joins:
  "map name (conversation_members (members (run BotState_init
      [SetHome True 1, Join 1 ''a'' 0, Join 1 ''b'' 1, Join 1 ''c'' 2, Join 1 ''d'' 3,
       Join 1 ''e'' 4, Join 1 ''f'' 5]))) = [''a'', ''b'', ''c'', ''d'', ''e'']"
  by (simp add: run_def BotState_init_def ManageMembers_init_def join_conversation_def
        find_member_def add_member_def Member_init_def Let_def)

text \<open>C6 at these six attempts.\<close>

theorem size_never_exceeds_limit_witness:
  "get_space (members (run BotState_init (take 7
      [SetHome True 1, Join 1 ''a'' 0, Join 1 ''b'' 1, Join 1 ''c'' 2, Join 1 ''d'' 3,
       Join 1 ''e'' 4, Join 1 ''f'' 5]))) \<le> 5"
  using size_never_exceeds_limit [of 7
      "[SetHome True 1, Join 1 ''a'' 0, Join 1 ''b'' 1, Join 1 ''c'' 2, Join 1 ''d'' 3,
       Join 1 ''e'' 4, Join 1 ''f'' 5]"]
  by simp

section \<open>The conversation history\<close>

text \<open>
  The entry at index 0 survives every call: \<open>del conversation_history[1]\<close> is the only
  deletion.
\<close>

lemma generate_response_keeps_pinned:
  assumes "conversation_history cb \<noteq> []"
  shows "hd (conversation_history (snd (generate_response post prompt cb)))
           = hd (conversation_history cb)"
proof -
  from assms obtain pinned turns where "conversation_history cb = pinned # turns"
    by (cases "conversation_history cb") auto
  then show ?thesis
    by (simp add: generate_response_def remove_at_def Let_def
             split: http_reply.splits sum.splits)
qed

text \<open>
  C2. The history is claimed never to exceed \<open>conversation_length\<close> = 31 entries. Each
  successful call appends two entries and deletes at most one, so from the initial
  history the lengths after 14, 15, 16 and 17 exchanges are 29, 30, 31 and 32.
\<close>

theorem conversation_history_exceeds_length:
  "conversation_length ChatBot_init = 31 \<and>
   length (conversation_history
     (exchanges (\<lambda>_. Response 200 (Inr ''ok'')) (\<lambda>_. ''hi'') 17 ChatBot_init)) = 32"
  by (simp add: eval_nat_numeral ChatBot_init_def generate_response_def remove_at_def Let_def)

text \<open>
  The failure path the source does handle: whenever the backend answers with a status
  other than 200, \<open>generate_response\<close> returns "(No Response)" and appends no response
  turn; the history is the old one followed by the prompt.
\<close>

lemma generate_response_bad_status:
  assumes "post (join_str newline (conversation_history cb @ [prompt])) = Response status body"
    and "status \<noteq> 200"
  shows "generate_response post prompt cb
           = (Inr ''(No Response)'',
              cb\<lparr>conversation_history := conversation_history cb @ [prompt]\<rparr>)"
  using assms by (simp add: generate_response_def Let_def)

lemma generate_response_status_500:
  "generate_response (\<lambda>_. Response 500 (Inl JSONDecodeError)) ''hi'' ChatBot_init
     = (Inr ''(No Response)'',
        ChatBot_init\<lparr>conversation_history := conversation_history ChatBot_init @ [''hi'']\<rparr>)"
  using generate_response_bad_status
    [of "\<lambda>_. Response 500 (Inl JSONDecodeError)" ChatBot_init "''hi''" 500 "Inl JSONDecodeError"]
  by simp

text \<open>
  C7. A failed backend call, transport failure or non-success status, is claimed to give
  the placeholder "(No Response)" instead of propagating, with no response turn appended.
  When \<open>requests.post\<close> raises (a transport failure) on the first prompt of a fresh
  \<open>ChatBot\<close>, no response turn is appended (the history is the old one followed by the
  prompt), but the call does not return the placeholder: the exception leaves
  \<open>generate_response\<close>. Only the status path above degrades to the placeholder.
\<close>

theorem generate_response_transport_failure_raises:
  "generate_response (\<lambda>_. Raises RequestException) ''hi'' ChatBot_init
     = (Inl RequestException,
        ChatBot_init\<lparr>conversation_history := conversation_history ChatBot_init @ [''hi'']\<rparr>) \<and>
   fst (generate_response (\<lambda>_. Raises RequestException) ''hi'' ChatBot_init)
     \<noteq> Inr ''(No Response)''"
  by (simp add: generate_response_def Let_def)

text \<open>
  C10. The prompt is appended before the backend is called: the backend receives the
  rendering of the history with the prompt at its end, and whenever the call does not
  deliver a response text (the request raises, the status is not 200, or the body cannot
  be decoded) the history afterwards is the old one followed by the prompt, one entry
  longer.
\<close>

theorem generate_response_failure_keeps_prompt:
  assumes "\<forall>text. post (join_str newline (conversation_history cb @ [prompt]))
             \<noteq> Response 200 (Inr text)"
  shows "snd (generate_response post prompt cb)
           = cb\<lparr>conversation_history := conversation_history cb @ [prompt]\<rparr> \<and>
         length (conversation_history (snd (generate_response post prompt cb)))
           = Suc (length (conversation_history cb))"
  using assms
  by (simp add: generate_response_def Let_def split: http_reply.splits sum.splits)

text \<open>C10 at a request that raises.\<close>

theorem generate_response_failure_keeps_prompt_witness:
  "(\<forall>text. (\<lambda>_. Raises RequestException)
        (join_str newline (conversation_history ChatBot_init @ [''hi'']))
          \<noteq> Response 200 (Inr text)) \<and>
   conversation_history (snd (generate_response (\<lambda>_. Raises RequestException) ''hi'' ChatBot_init))
     = conversation_history ChatBot_init @ [''hi'']"
  using generate_response_failure_keeps_prompt
    [of "\<lambda>_. Raises RequestException" ChatBot_init "''hi''"]
  by simp

section \<open>Delivery in chunks\<close>

text \<open>
  The slices taken at the indices of \<open>range(i, len(s), step)\<close> put together give \<open>s\<close>
  from \<open>i\<close> on; every index of the range is below the length, so no slice is empty.
\<close>

lemma py_range_chunks:
  assumes "0 < stp"
  shows "concat (map (\<lambda>i. py_slice s i (i + stp)) (py_range i (length s) stp)) = drop i s"
  using assms
proof (induction i "length s" stp rule: py_range.induct)
  case (1 i stp)
  show ?case
  proof (cases "i < length s")
    case True
    have "concat (map (\<lambda>i. py_slice s i (i + stp)) (py_range (i + stp) (length s) stp))
            = drop (i + stp) s"
      using "1.hyps" "1.prems" True by simp
    moreover have "take stp (drop i s) @ drop (i + stp) s = drop i s"
      by (metis add.commute append_take_drop_id drop_drop)
    ultimately show ?thesis
      using True "1.prems"
      by (subst py_range.simps) (simp add: py_slice_def)
  next
    case False
    then show ?thesis
      using "1.prems" by (subst py_range.simps) simp
  qed
qed

lemma py_range_bound:
  "i' \<in> set (py_range i stop stp) \<Longrightarrow> i' < stop"
proof (induction i stop stp rule: py_range.induct)
  case (1 i stop stp)
  show ?case
  proof (cases "stp = 0 \<or> \<not> i < stop")
    case True
    with "1.prems" show ?thesis
      by (subst (asm) py_range.simps) (auto split: if_splits)
  next
    case False
    with "1.prems" have "i' = i \<or> i' \<in> set (py_range (i + stp) stop stp)"
      by (subst (asm) py_range.simps) (auto split: if_splits)
    with False "1.IH" show ?thesis by auto
  qed
qed

lemma parsed_response_chunk:
  assumes "c \<in> set (parsed_response response)"
  shows "c \<noteq> [] \<and> length c \<le> text_limit"
proof -
  from assms obtain i where i: "i \<in> set (py_range 0 (length response) text_limit)"
    and c: "c = py_slice response i (i + text_limit)"
    by (auto simp: parsed_response_def)
  from i have "i < length response" by (rule py_range_bound)
  with c show ?thesis
    by (simp add: py_slice_def text_limit_def)
qed

text \<open>
  C8. A response longer than 2000 is replied in chunks whose concatenation, in order, is
  the response; no chunk is empty and none is longer than 2000.
\<close>

theorem deliver_chunks:
  assumes "length response > 2000"
  shows "concat (deliver response) = response \<and>
         (\<forall>c \<in> set (deliver response). c \<noteq> [] \<and> length c \<le> 2000)"
proof -
  from assms have d: "deliver response = parsed_response response"
    by (simp add: deliver_def text_limit_def)
  have "concat (parsed_response response) = drop 0 response"
    unfolding parsed_response_def
    by (rule py_range_chunks) (simp add: text_limit_def)
  moreover have "\<forall>c \<in> set (parsed_response response). c \<noteq> [] \<and> length c \<le> 2000"
    using parsed_response_chunk [of _ response] by (simp add: text_limit_def)
  ultimately show ?thesis using d by simp
qed

text \<open>C8 at a response of 2001 characters.\<close>

theorem deliver_chunks_witness:
  "length (replicate 2001 (CHR ''a'')) > 2000 \<and>
   concat (deliver (replicate 2001 (CHR ''a''))) = replicate 2001 (CHR ''a'') \<and>
   list_all (\<lambda>c. c \<noteq> [] \<and> length c \<le> 2000) (deliver (replicate 2001 (CHR ''a'')))"
  using deliver_chunks [of "replicate 2001 (CHR ''a'')"] by (simp add: list_all_iff)

end
